theory Spec2Isabelle
  imports Main
begin

section \<open>Data model (internal/resources/types.go)\<close>

text \<open>
  \<open>ViewType\<close> is a string type in the source with four named constants; the model
  package only ever assigns these four, so it is a four-constructor datatype here.
\<close>

datatype ViewType = PodView | ServiceView | DetailView | NamespaceView

text \<open>
  Field names carry a prefix because record selectors are global constants in HOL.
  Go maps are carried as association lists and \<open>time.Time\<close> as an integer; the model
  package never inspects either.
\<close>

record ContainerInfo =
  ctr_Name :: string
  ctr_Image :: string
  ctr_Ready :: bool
  ctr_RestartCount :: int
  ctr_State :: string
  ctr_CPURequest :: string
  ctr_MemoryRequest :: string
  ctr_CPULimit :: string
  ctr_MemoryLimit :: string
  ctr_EnvironmentVars :: "(string \<times> string) list"

record PodInfo =
  pod_Name :: string
  pod_Namespace :: string
  pod_Status :: string
  pod_Age :: string
  pod_IP :: string
  pod_Node :: string
  pod_Created :: int
  pod_Labels :: "(string \<times> string) list"
  pod_Containers :: "ContainerInfo list"

record ServiceInfo =
  svc_Name :: string
  svc_Namespace :: string
  svc_Type :: string
  svc_ClusterIP :: string
  svc_ExternalIP :: string
  svc_Ports :: string
  svc_Age :: string
  svc_Selector :: "(string \<times> string) list"

record ResourceData =
  Pods :: "PodInfo list"
  Services :: "ServiceInfo list"

section \<open>Messages and commands (internal/model/model.go)\<close>

text \<open>
  \<open>*client.K8sClient\<close> is an opaque handle; a nil pointer is \<open>None\<close>.
  A Go \<open>error\<close> is \<open>None\<close> when nil and otherwise \<open>Some\<close> of the text that
  \<open>%v\<close> prints for it.
\<close>

datatype K8sClient = K8sClient nat

text \<open>
  A \<open>tea.Cmd\<close> is a deferred computation; here it is the name of the computation and
  its arguments. \<open>CmdNil\<close> is the nil command, \<open>SpinnerTick\<close> is \<open>m.spinner.Tick\<close>.
\<close>

datatype Cmd =
    CmdNil
  | Quit
  | SpinnerTick
  | InitK8sClient
  | GetContextInfo "K8sClient option"
  | GetNamespaces "K8sClient option"
  | GetResources "K8sClient option" string
  | GetPodDetail "K8sClient option" string string
  | GetServiceDetail "K8sClient option" string string
  | Batch "Cmd list"

text \<open>
  \<open>KeyMsg\<close> carries the value of \<open>msg.String()\<close>. \<open>OtherMsg\<close> stands for every
  message type that the type switch of \<open>Update\<close> has no case for.
\<close>

datatype Msg =
    KeyMsg string
  | WindowSizeMsg int int
  | SpinnerTickMsg
  | K8sClientMsg "K8sClient option" "string option"
  | ContextInfoMsg string "string option"
  | NamespacesMsg "string list" "string option"
  | ResourcesMsg ResourceData "string option"
  | PodDetailMsg string "string option"
  | ServiceDetailMsg string "string option"
  | OtherMsg

text \<open>
  The field \<open>context\<close> of the source is \<open>context'\<close> here (\<open>context\<close> is a keyword).
  The spinner of the bubbles library is reduced to its frame counter.
\<close>

record Model =
  spinner :: nat
  loading :: bool
  currentView :: ViewType
  selectedItem :: int
  width :: int
  height :: int
  message :: string
  error :: string
  client :: "K8sClient option"
  namespaces :: "string list"
  currentNS :: string
  context' :: string
  resourceData :: ResourceData
  detailContent :: string

text \<open>A Go runtime panic: indexing a slice outside \<open>[0, len)\<close>.\<close>

datatype error = IndexOutOfRange

definition index :: "'a list \<Rightarrow> int \<Rightarrow> error + 'a" where
  "index xs i =
     (if 0 \<le> i \<and> i < int (length xs) then Inr (xs ! nat i) else Inl IndexOutOfRange)"

definition New :: Model where
  "New = \<lparr> spinner = 0, loading = True, currentView = PodView, selectedItem = 0,
           width = 0, height = 0,
           message = ''Connecting to Kubernetes cluster...'', error = [],
           client = None, namespaces = [], currentNS = ''default'', context' = [],
           resourceData = \<lparr> Pods = [], Services = [] \<rparr>, detailContent = [] \<rparr>"

definition Init :: "Model \<Rightarrow> Cmd" where
  "Init m = Batch [SpinnerTick, InitK8sClient]"

text \<open>
  \<open>spinner.Model.Update\<close> belongs to the bubbles library, not to this repository:
  a tick advances the frame (the Dot spinner has 8 frames) and asks for the next tick,
  every other message leaves the spinner alone and returns the nil command.
\<close>

definition spinner_Update :: "nat \<Rightarrow> Msg \<Rightarrow> nat \<times> Cmd" where
  "spinner_Update sp msg =
     (case msg of SpinnerTickMsg \<Rightarrow> ((sp + 1) mod 8, SpinnerTick) | _ \<Rightarrow> (sp, CmdNil))"

text \<open>
  The last two lines of \<open>Update\<close>, reached by every branch that does not return:
  \<open>m.spinner, cmd = m.spinner.Update(msg); return m, cmd\<close>.
\<close>

definition fallthrough :: "Model \<Rightarrow> Msg \<Rightarrow> error + Model \<times> Cmd" where
  "fallthrough m msg =
     (case spinner_Update (spinner m) msg of (sp, cmd) \<Rightarrow> Inr (m\<lparr>spinner := sp\<rparr>, cmd))"

text \<open>The \<open>"down", "j"\<close> case, inside \<open>if !m.loading\<close>.\<close>

definition moveDown :: "Model \<Rightarrow> Model" where
  "moveDown m =
     (case currentView m of
        PodView \<Rightarrow>
          if selectedItem m < int (length (Pods (resourceData m))) - 1
          then m\<lparr>selectedItem := selectedItem m + 1\<rparr> else m
      | ServiceView \<Rightarrow>
          if selectedItem m < int (length (Services (resourceData m))) - 1
          then m\<lparr>selectedItem := selectedItem m + 1\<rparr> else m
      | NamespaceView \<Rightarrow>
          if selectedItem m < int (length (namespaces m)) - 1
          then m\<lparr>selectedItem := selectedItem m + 1\<rparr> else m
      | DetailView \<Rightarrow> m)"

text \<open>The \<open>"enter"\<close> case, inside \<open>if !m.loading\<close>. The slice index can panic.\<close>

definition activate :: "Model \<Rightarrow> error + Model \<times> Cmd" where
  "activate m =
     (case currentView m of
        PodView \<Rightarrow>
          if length (Pods (resourceData m)) > 0 then
            (case index (Pods (resourceData m)) (selectedItem m) of
               Inl e \<Rightarrow> Inl e
             | Inr selectedPod \<Rightarrow>
                 Inr (m\<lparr>currentView := DetailView, loading := True\<rparr>,
                      Batch [SpinnerTick,
                             GetPodDetail (client m) (pod_Namespace selectedPod)
                               (pod_Name selectedPod)]))
          else fallthrough m (KeyMsg ''enter'')
      | ServiceView \<Rightarrow>
          if length (Services (resourceData m)) > 0 then
            (case index (Services (resourceData m)) (selectedItem m) of
               Inl e \<Rightarrow> Inl e
             | Inr selectedSvc \<Rightarrow>
                 Inr (m\<lparr>currentView := DetailView, loading := True\<rparr>,
                      Batch [SpinnerTick,
                             GetServiceDetail (client m) (svc_Namespace selectedSvc)
                               (svc_Name selectedSvc)]))
          else fallthrough m (KeyMsg ''enter'')
      | NamespaceView \<Rightarrow>
          if length (namespaces m) > 0 then
            (case index (namespaces m) (selectedItem m) of
               Inl e \<Rightarrow> Inl e
             | Inr ns \<Rightarrow>
                 Inr (m\<lparr>currentNS := ns, currentView := PodView, loading := True,
                        message := ''Switching to namespace: '' @ ns\<rparr>,
                      Batch [SpinnerTick, GetResources (client m) ns]))
          else fallthrough m (KeyMsg ''enter'')
      | DetailView \<Rightarrow> fallthrough m (KeyMsg ''enter''))"

text \<open>
  The loop of the \<open>"n"\<close> case: the index of the first element equal to the current
  namespace, if there is one.
\<close>

fun findNS :: "string list \<Rightarrow> string \<Rightarrow> int \<Rightarrow> int option" where
  "findNS [] cur i = None"
| "findNS (ns # rest) cur i = (if ns = cur then Some i else findNS rest cur (i + 1))"

definition openNamespaces :: "Model \<Rightarrow> Model" where
  "openNamespaces m =
     (case findNS (namespaces m) (currentNS m) 0 of
        Some i \<Rightarrow> m\<lparr>currentView := NamespaceView, selectedItem := i\<rparr>
      | None \<Rightarrow> m\<lparr>currentView := NamespaceView\<rparr>)"

text \<open>The \<open>tea.KeyMsg\<close> case of \<open>Update\<close>: the switch on \<open>msg.String()\<close>.\<close>

definition updateKey :: "Model \<Rightarrow> string \<Rightarrow> error + Model \<times> Cmd" where
  "updateKey m k =
     (if k = ''ctrl+c'' \<or> k = ''q'' then Inr (m, Quit)
      else if k = ''p'' then
        fallthrough (if loading m then m else m\<lparr>currentView := PodView, selectedItem := 0\<rparr>)
          (KeyMsg k)
      else if k = ''s'' then
        fallthrough (if loading m then m else m\<lparr>currentView := ServiceView, selectedItem := 0\<rparr>)
          (KeyMsg k)
      else if k = ''esc'' then
        fallthrough (if currentView m = DetailView then m\<lparr>currentView := PodView\<rparr>
                     else if currentView m = NamespaceView then m\<lparr>currentView := PodView\<rparr>
                     else m)
          (KeyMsg k)
      else if k = ''up'' \<or> k = ''k'' then
        fallthrough (if loading m then m
                     else if selectedItem m > 0 then m\<lparr>selectedItem := selectedItem m - 1\<rparr>
                     else m)
          (KeyMsg k)
      else if k = ''down'' \<or> k = ''j'' then
        fallthrough (if loading m then m else moveDown m) (KeyMsg k)
      else if k = ''enter'' then
        (if loading m then fallthrough m (KeyMsg k) else activate m)
      else if k = ''r'' then
        (if loading m then fallthrough m (KeyMsg k)
         else Inr (m\<lparr>loading := True, message := ''Refreshing resources...''\<rparr>,
                   Batch [SpinnerTick, GetResources (client m) (currentNS m)]))
      else if k = ''n'' then
        fallthrough (if loading m then m else openNamespaces m) (KeyMsg k)
      else fallthrough m (KeyMsg k))"

text \<open>\<open>Model.Update\<close>: the type switch on the message.\<close>

fun Update :: "Model \<Rightarrow> Msg \<Rightarrow> error + Model \<times> Cmd" where
  "Update m (KeyMsg k) = updateKey m k"
| "Update m (WindowSizeMsg w h) = fallthrough (m\<lparr>width := w, height := h\<rparr>) (WindowSizeMsg w h)"
| "Update m SpinnerTickMsg =
     (case spinner_Update (spinner m) SpinnerTickMsg of
        (sp, cmd) \<Rightarrow> Inr (m\<lparr>spinner := sp\<rparr>, cmd))"
| "Update m (K8sClientMsg c err) =
     (case err of
        Some e \<Rightarrow>
          Inr (m\<lparr>loading := False, error := ''Error connecting to Kubernetes: '' @ e\<rparr>, CmdNil)
      | None \<Rightarrow>
          Inr (m\<lparr>client := c, message := ''Getting context information...''\<rparr>,
               GetContextInfo c))"
| "Update m (ContextInfoMsg ctx err) =
     (case err of
        Some e \<Rightarrow>
          Inr (m\<lparr>context' := ''unknown-context'', message := ''Fetching namespaces...''\<rparr>,
               GetNamespaces (client m))
      | None \<Rightarrow>
          Inr (m\<lparr>context' := ctx, message := ''Fetching namespaces...''\<rparr>,
               GetNamespaces (client m)))"
| "Update m (NamespacesMsg nss err) =
     (case err of
        Some e \<Rightarrow>
          Inr (m\<lparr>loading := False, error := ''Error fetching namespaces: '' @ e\<rparr>, CmdNil)
      | None \<Rightarrow>
          Inr (m\<lparr>namespaces := nss, message := ''Fetching resources...''\<rparr>,
               GetResources (client m) (currentNS m)))"
| "Update m (ResourcesMsg d err) =
     (case err of
        Some e \<Rightarrow>
          Inr (m\<lparr>loading := False, error := ''Error fetching resources: '' @ e\<rparr>, CmdNil)
      | None \<Rightarrow> Inr (m\<lparr>loading := False, resourceData := d\<rparr>, CmdNil))"
| "Update m (PodDetailMsg detail err) =
     (case err of
        Some e \<Rightarrow>
          Inr (m\<lparr>loading := False, error := ''Error fetching pod details: '' @ e\<rparr>, CmdNil)
      | None \<Rightarrow> Inr (m\<lparr>loading := False, detailContent := detail\<rparr>, CmdNil))"
| "Update m (ServiceDetailMsg detail err) =
     (case err of
        Some e \<Rightarrow>
          Inr (m\<lparr>loading := False, error := ''Error fetching service details: '' @ e\<rparr>, CmdNil)
      | None \<Rightarrow> Inr (m\<lparr>loading := False, detailContent := detail\<rparr>, CmdNil))"
| "Update m OtherMsg = fallthrough m OtherMsg"

section \<open>The event loop around \<open>Update\<close>\<close>

text \<open>
  The gateway calls among the commands that \<open>Update\<close> or \<open>Init\<close> hand to the runtime:
  batches are flattened, the nil command, \<open>tea.Quit\<close> and the spinner tick are dropped.
\<close>

fun fetches :: "Cmd \<Rightarrow> Cmd list" where
  "fetches (Batch cs) = concat (map fetches cs)"
| "fetches CmdNil = []"
| "fetches Quit = []"
| "fetches SpinnerTick = []"
| "fetches c = [c]"

text \<open>
  Each command function of model.go returns one message type: \<open>initK8sClient\<close> a
  \<open>k8sClientMsg\<close>, \<open>getContextInfo\<close> a \<open>contextInfoMsg\<close>, \<open>getNamespaces\<close> a
  \<open>namespacesMsg\<close>, \<open>getResources\<close> a \<open>resourcesMsg\<close>, \<open>getPodDetail\<close> a
  \<open>podDetailMsg\<close>, \<open>getServiceDetail\<close> a \<open>serviceDetailMsg\<close>.
\<close>

fun completes :: "Cmd \<Rightarrow> Msg \<Rightarrow> bool" where
  "completes InitK8sClient (K8sClientMsg c e) = True"
| "completes (GetContextInfo c) (ContextInfoMsg ctx e) = True"
| "completes (GetNamespaces c) (NamespacesMsg nss e) = True"
| "completes (GetResources c ns) (ResourcesMsg d e) = True"
| "completes (GetPodDetail c ns n) (PodDetailMsg t e) = True"
| "completes (GetServiceDetail c ns n) (ServiceDetailMsg t e) = True"
| "completes f msg = False"

fun isCompletion :: "Msg \<Rightarrow> bool" where
  "isCompletion (K8sClientMsg c e) = True"
| "isCompletion (ContextInfoMsg ctx e) = True"
| "isCompletion (NamespacesMsg nss e) = True"
| "isCompletion (ResourcesMsg d e) = True"
| "isCompletion (PodDetailMsg t e) = True"
| "isCompletion (ServiceDetailMsg t e) = True"
| "isCompletion msg = False"

text \<open>
  The state of the running program: the model, the gateway calls that have been
  scheduled and have not completed yet, and whether \<open>tea.Quit\<close> has been returned.
\<close>

record sys =
  model :: Model
  pending :: "Cmd list"
  halted :: bool

definition start :: sys where
  "start = \<lparr> model = New, pending = fetches (Init New), halted = False \<rparr>"

text \<open>
  One event. A completion message can only arrive for a pending gateway call, which it
  removes; no event is processed after quit. \<open>None\<close> means that the event cannot occur
  in this state, \<open>Some (Inl e)\<close> that \<open>Update\<close> panics.
\<close>

definition deliver :: "sys \<Rightarrow> Msg \<Rightarrow> (error + sys) option" where
  "deliver s msg =
     (if halted s then None
      else if isCompletion msg then
        (case find (\<lambda>f. completes f msg) (pending s) of
           None \<Rightarrow> None
         | Some f \<Rightarrow>
             (case Update (model s) msg of
                Inl e \<Rightarrow> Some (Inl e)
              | Inr (m', c) \<Rightarrow>
                  Some (Inr \<lparr> model = m', pending = remove1 f (pending s) @ fetches c,
                              halted = (c = Quit) \<rparr>)))
      else
        (case Update (model s) msg of
           Inl e \<Rightarrow> Some (Inl e)
         | Inr (m', c) \<Rightarrow>
             Some (Inr \<lparr> model = m', pending = pending s @ fetches c,
                         halted = (c = Quit) \<rparr>)))"

text \<open>A sequence of events; a panic ends the run.\<close>

fun run :: "sys \<Rightarrow> Msg list \<Rightarrow> (error + sys) option" where
  "run s [] = Some (Inr s)"
| "run s (e # es) =
     (case deliver s e of
        None \<Rightarrow> None
      | Some (Inl err) \<Rightarrow> Some (Inl err)
      | Some (Inr s') \<Rightarrow> run s' es)"

section \<open>Scenario data\<close>

text \<open>The model that a run from \<open>start\<close> ends in, if the run is possible and does not panic.\<close>

definition final :: "Msg list \<Rightarrow> Model option" where
  "final evs = (case run start evs of Some (Inr s) \<Rightarrow> Some (model s) | _ \<Rightarrow> None)"

definition podNamed :: "string \<Rightarrow> string \<Rightarrow> PodInfo" where
  "podNamed ns n =
     \<lparr> pod_Name = n, pod_Namespace = ns, pod_Status = ''Running'', pod_Age = ''1d'',
       pod_IP = ''10.0.0.1'', pod_Node = ''node-1'', pod_Created = 0, pod_Labels = [],
       pod_Containers = [] \<rparr>"

definition serviceNamed :: "string \<Rightarrow> string \<Rightarrow> ServiceInfo" where
  "serviceNamed ns n =
     \<lparr> svc_Name = n, svc_Namespace = ns, svc_Type = ''ClusterIP'', svc_ClusterIP = ''10.96.0.1'',
       svc_ExternalIP = [], svc_Ports = ''443/TCP'', svc_Age = ''1d'', svc_Selector = [] \<rparr>"

text \<open>Two workloads and one endpoint in the partition \<open>default\<close>.\<close>

definition snapshot :: ResourceData where
  "snapshot = \<lparr> Pods = [podNamed ''default'' ''web'', podNamed ''default'' ''db''],
                Services = [serviceNamed ''default'' ''kubernetes''] \<rparr>"

text \<open>The same partition after one workload has gone.\<close>

definition smallerSnapshot :: ResourceData where
  "smallerSnapshot = \<lparr> Pods = [podNamed ''default'' ''web''],
                       Services = [serviceNamed ''default'' ''kubernetes''] \<rparr>"

text \<open>
  The first three completions of the startup sequence: the connection succeeds, the
  context resolves to \<open>prod-context\<close>, the partitions are \<open>default\<close> and \<open>kube-system\<close>.
\<close>

definition connected :: "Msg list" where
  "connected =
     [K8sClientMsg (Some (K8sClient 1)) None, ContextInfoMsg ''prod-context'' None,
      NamespacesMsg [''default'', ''kube-system''] None]"

definition happyPath :: "Msg list" where
  "happyPath = connected @ [ResourcesMsg snapshot None]"

text \<open>
  The startup sequence of a user who may list workloads but not partitions: the
  partition list fails, a refresh then fetches the snapshot.
\<close>

definition withoutPartitions :: "Msg list" where
  "withoutPartitions =
     [K8sClientMsg (Some (K8sClient 1)) None, ContextInfoMsg ''prod-context'' None,
      NamespacesMsg [] (Some ''forbidden''), KeyMsg ''r'', ResourcesMsg snapshot None]"

text \<open>
  At most one gateway call is pending, and exactly when \<open>loading\<close> is set.
\<close>

definition single_flight :: "sys \<Rightarrow> bool" where
  "single_flight s = (length (pending s) = (if loading (model s) then 1 else 0))"

section \<open>Auxiliary facts\<close>

lemmas scenario_defs = final_def start_def deliver_def New_def Init_def updateKey_def
  activate_def moveDown_def openNamespaces_def index_def fallthrough_def spinner_Update_def
  podNamed_def serviceNamed_def snapshot_def smallerSnapshot_def connected_def happyPath_def
  withoutPartitions_def

lemma fallthrough_key [simp]: "fallthrough m (KeyMsg k) = Inr (m, CmdNil)"
  by (simp add: fallthrough_def spinner_Update_def)

lemma fallthrough_other [simp]: "fallthrough m OtherMsg = Inr (m, CmdNil)"
  by (simp add: fallthrough_def spinner_Update_def)

lemma fallthrough_window [simp]: "fallthrough m (WindowSizeMsg w h) = Inr (m, CmdNil)"
  by (simp add: fallthrough_def spinner_Update_def)

lemma updateKey_cases:
  assumes on_quit: "P (Inr (m, Quit))"
    and on_p: "P (Inr (if loading m then m else m\<lparr>currentView := PodView, selectedItem := 0\<rparr>, CmdNil))"
    and on_s:
      "P (Inr (if loading m then m else m\<lparr>currentView := ServiceView, selectedItem := 0\<rparr>, CmdNil))"
    and on_esc:
      "P (Inr (if currentView m = DetailView then m\<lparr>currentView := PodView\<rparr>
               else if currentView m = NamespaceView then m\<lparr>currentView := PodView\<rparr>
               else m, CmdNil))"
    and on_up:
      "P (Inr (if loading m then m
               else if selectedItem m > 0 then m\<lparr>selectedItem := selectedItem m - 1\<rparr>
               else m, CmdNil))"
    and on_down: "P (Inr (if loading m then m else moveDown m, CmdNil))"
    and on_enter: "P (if loading m then Inr (m, CmdNil) else activate m)"
    and on_r:
      "P (if loading m then Inr (m, CmdNil)
          else Inr (m\<lparr>loading := True, message := ''Refreshing resources...''\<rparr>,
                    Batch [SpinnerTick, GetResources (client m) (currentNS m)]))"
    and on_n: "P (Inr (if loading m then m else openNamespaces m, CmdNil))"
    and on_other: "P (Inr (m, CmdNil))"
  shows "P (updateKey m k)"
proof -
  consider "k = ''ctrl+c'' \<or> k = ''q''" | "k = ''p''" | "k = ''s''" | "k = ''esc''"
    | "k = ''up'' \<or> k = ''k''" | "k = ''down'' \<or> k = ''j''" | "k = ''enter''" | "k = ''r''"
    | "k = ''n''"
    | "\<not> (k = ''ctrl+c'' \<or> k = ''q'')" "k \<noteq> ''p''" "k \<noteq> ''s''" "k \<noteq> ''esc''"
      "\<not> (k = ''up'' \<or> k = ''k'')" "\<not> (k = ''down'' \<or> k = ''j'')" "k \<noteq> ''enter''"
      "k \<noteq> ''r''" "k \<noteq> ''n''"
    by argo
  then show ?thesis
  proof cases
    case 1 with on_quit show ?thesis by (auto simp: updateKey_def split del: if_split cong: if_cong)
  next
    case 2 with on_p show ?thesis by (simp add: updateKey_def split del: if_split cong: if_cong)
  next
    case 3 with on_s show ?thesis by (simp add: updateKey_def split del: if_split cong: if_cong)
  next
    case 4 with on_esc show ?thesis by (simp add: updateKey_def split del: if_split cong: if_cong)
  next
    case 5 with on_up show ?thesis by (auto simp: updateKey_def split del: if_split cong: if_cong)
  next
    case 6 with on_down show ?thesis by (auto simp: updateKey_def split del: if_split cong: if_cong)
  next
    case 7 with on_enter show ?thesis by (simp add: updateKey_def split del: if_split cong: if_cong)
  next
    case 8 with on_r show ?thesis by (simp add: updateKey_def split del: if_split cong: if_cong)
  next
    case 9 with on_n show ?thesis by (simp add: updateKey_def split del: if_split cong: if_cong)
  next
    case 10 with on_other show ?thesis by (simp add: updateKey_def split del: if_split cong: if_cong)
  qed
qed

lemma loading_moveDown [simp]: "loading (moveDown m) = loading m"
  by (simp add: moveDown_def split: ViewType.splits)

lemma loading_openNamespaces [simp]: "loading (openNamespaces m) = loading m"
  by (simp add: openNamespaces_def split: option.splits)

lemma activate_cases:
  assumes "activate m = Inr (m', c)"
  shows "(m' = m \<and> c = CmdNil) \<or> (loading m' \<and> length (fetches c) = 1)"
  using assms
  by (auto simp: activate_def split: ViewType.splits if_splits sum.splits)







lemma key_while_loading:
  assumes "loading m"
  shows "\<exists>m' c. updateKey m k = Inr (m', c) \<and> fetches c = [] \<and> loading m'"
  by (rule updateKey_cases) (use assms in auto)

lemma key_while_idle:
  assumes "\<not> loading m"
  shows "\<forall>m' c. updateKey m k = Inr (m', c) \<longrightarrow>
           length (fetches c) = (if loading m' then 1 else 0)"
  by (rule updateKey_cases) (use assms in \<open>auto dest: activate_cases\<close>)

lemma input_while_loading:
  assumes "loading m" "\<not> isCompletion msg" "Update m msg = Inr (m', c)"
  shows "fetches c = [] \<and> loading m'"
proof (cases msg)
  case (KeyMsg k)
  with assms key_while_loading [of m k] show ?thesis by auto
next
  case SpinnerTickMsg
  with assms show ?thesis by (auto simp: spinner_Update_def)
qed (use assms in auto)

lemma input_while_idle:
  assumes "\<not> loading m" "\<not> isCompletion msg" "Update m msg = Inr (m', c)"
  shows "length (fetches c) = (if loading m' then 1 else 0)"
proof (cases msg)
  case (KeyMsg k)
  with assms key_while_idle [of m k] show ?thesis by simp
next
  case SpinnerTickMsg
  with assms show ?thesis by (auto simp: spinner_Update_def)
qed (use assms in auto)

lemma completion_step:
  assumes "isCompletion msg" "Update m msg = Inr (m', c)" "loading m"
  shows "length (fetches c) = (if loading m' then 1 else 0)"
  using assms by (cases msg) (auto split: option.splits)

lemma deliver_single_flight:
  assumes "deliver s msg = Some (Inr s')" "single_flight s"
  shows "single_flight s'"
proof (cases "isCompletion msg")
  case False
  with assms obtain m' c where u: "Update (model s) msg = Inr (m', c)"
    and s': "s' = \<lparr> model = m', pending = pending s @ fetches c, halted = (c = Quit) \<rparr>"
    by (auto simp: deliver_def split: if_splits sum.splits)
  show ?thesis
  proof (cases "loading (model s)")
    case True
    with input_while_loading [OF True False u] assms(2) s' show ?thesis
      by (simp add: single_flight_def)
  next
    case idle: False
    with input_while_idle [OF idle False u] assms(2) s' show ?thesis
      by (simp add: single_flight_def)
  qed
next
  case True
  with assms obtain f m' c where f: "find (\<lambda>f. completes f msg) (pending s) = Some f"
    and u: "Update (model s) msg = Inr (m', c)"
    and s': "s' = \<lparr> model = m', pending = remove1 f (pending s) @ fetches c,
                     halted = (c = Quit) \<rparr>"
    by (auto simp: deliver_def split: if_splits sum.splits option.splits)
  from f have "f \<in> set (pending s)"
    by (auto simp: find_Some_iff)
  with assms(2) have l: "loading (model s)" and p: "pending s = [f]"
    by (auto simp: single_flight_def length_Suc_conv split: if_splits)
  from completion_step [OF True u l] s' p show ?thesis
    by (simp add: single_flight_def)
qed

lemma run_single_flight:
  "run s evs = Some (Inr s') \<Longrightarrow> single_flight s \<Longrightarrow> single_flight s'"
proof (induction evs arbitrary: s)
  case Nil
  then show ?case by simp
next
  case (Cons e es)
  then show ?case
    by (auto split: option.splits sum.splits dest: deliver_single_flight)
qed

lemma start_single_flight: "single_flight start"
  by (simp add: single_flight_def start_def New_def Init_def)

section \<open>The claims\<close>

subsection \<open>C1: successful completions\<close>

text \<open>
  C1, as amended. When a resource-snapshot completion or a pod or service detail
  completion arrives with a success payload, \<open>Update\<close> replaces the corresponding entity
  (\<open>resourceData\<close> or \<open>detailContent\<close>) wholesale, sets \<open>loading\<close> to false and
  schedules nothing. The field \<open>error\<close> keeps the value it had: no branch of \<open>Update\<close>
  ever assigns the empty string to it.
\<close>

theorem success_completion_replaces_entity:
  "Update m (ResourcesMsg d None) = Inr (m\<lparr>loading := False, resourceData := d\<rparr>, CmdNil)
   \<and> Update m (PodDetailMsg t None) = Inr (m\<lparr>loading := False, detailContent := t\<rparr>, CmdNil)
   \<and> Update m (ServiceDetailMsg t None)
       = Inr (m\<lparr>loading := False, detailContent := t\<rparr>, CmdNil)
   \<and> error (m\<lparr>loading := False, resourceData := d\<rparr>) = error m
   \<and> error (m\<lparr>loading := False, detailContent := t\<rparr>) = error m"
  by simp

text \<open>
  C1 as stated fails on a retry. The snapshot fetch of the startup sequence fails with
  \<open>timeout\<close>, the user refreshes, and the second fetch succeeds: the snapshot is in
  place and \<open>loading\<close> is false, but the error message of the first attempt is still set.
\<close>

theorem success_keeps_error_counterexample:
  "map_option loading
     (final (connected @ [ResourcesMsg \<lparr>Pods = [], Services = []\<rparr> (Some ''timeout''), KeyMsg ''r'',
                          ResourcesMsg snapshot None])) = Some False
   \<and> map_option resourceData
     (final (connected @ [ResourcesMsg \<lparr>Pods = [], Services = []\<rparr> (Some ''timeout''), KeyMsg ''r'',
                          ResourcesMsg snapshot None])) = Some snapshot
   \<and> map_option error
     (final (connected @ [ResourcesMsg \<lparr>Pods = [], Services = []\<rparr> (Some ''timeout''), KeyMsg ''r'',
                          ResourcesMsg snapshot None]))
       = Some ''Error fetching resources: timeout''"
  by (simp add: scenario_defs)

subsection \<open>C2: the selection bound\<close>

text \<open>
  C2 does not hold of the code. After the happy path (two workloads) the user moves
  down to index 1 and refreshes; the partition now has one workload. The completion
  stores the shorter list and leaves \<open>selectedItem\<close> at 1, outside \<open>[0, 1)\<close>, and the
  next \<open>enter\<close> indexes the list out of range, which is a runtime panic.
\<close>

theorem selection_out_of_range_after_refresh:
  "map_option currentView
     (final (happyPath @ [KeyMsg ''down'', KeyMsg ''r'', ResourcesMsg smallerSnapshot None]))
     = Some PodView
   \<and> map_option loading
     (final (happyPath @ [KeyMsg ''down'', KeyMsg ''r'', ResourcesMsg smallerSnapshot None]))
     = Some False
   \<and> map_option selectedItem
     (final (happyPath @ [KeyMsg ''down'', KeyMsg ''r'', ResourcesMsg smallerSnapshot None]))
     = Some 1
   \<and> map_option resourceData
     (final (happyPath @ [KeyMsg ''down'', KeyMsg ''r'', ResourcesMsg smallerSnapshot None]))
     = Some smallerSnapshot
   \<and> length (Pods smallerSnapshot) = 1
   \<and> run start (happyPath @ [KeyMsg ''down'', KeyMsg ''r'', ResourcesMsg smallerSnapshot None,
                              KeyMsg ''enter''])
     = Some (Inl IndexOutOfRange)"
  by (simp add: scenario_defs)

subsection \<open>C3: input while loading\<close>

text \<open>
  C3, as amended. In every state with \<open>loading\<close> set, every key leaves the model
  unchanged, except \<open>esc\<close> in the detail view or the namespace view. Quit returns
  \<open>tea.Quit\<close> and every other key the nil command. (The inputs are the keys; a window
  resize is not one of the nine inputs and is stored whatever \<open>loading\<close> is.)
\<close>

theorem loading_ignores_input:
  assumes "loading m"
    and "k \<noteq> ''esc'' \<or> (currentView m \<noteq> DetailView \<and> currentView m \<noteq> NamespaceView)"
  shows "Update m (KeyMsg k)
         = Inr (m, if k = ''ctrl+c'' \<or> k = ''q'' then Quit else CmdNil)"
proof -
  have "loading m \<longrightarrow>
        (k \<noteq> ''esc'' \<or> (currentView m \<noteq> DetailView \<and> currentView m \<noteq> NamespaceView)) \<longrightarrow>
        updateKey m k = Inr (m, if k = ''ctrl+c'' \<or> k = ''q'' then Quit else CmdNil)"
    unfolding updateKey_def by simp
  with assms show ?thesis by simp
qed

theorem loading_ignores_input_witness:
  "loading New
   \<and> ''enter'' \<noteq> ''esc''
   \<and> Update New (KeyMsg ''enter'') = Inr (New, CmdNil)"
  using loading_ignores_input [of New "''enter''"] by (simp add: New_def)

text \<open>
  C3 as stated fails for \<open>esc\<close>, the one key whose case does not test \<open>loading\<close>:
  after \<open>enter\<close> on a workload the model is loading in the detail view, and \<open>esc\<close>
  moves it to the workload view while it is still loading.
\<close>

theorem back_while_loading_counterexample:
  "map_option loading (final (happyPath @ [KeyMsg ''enter''])) = Some True
   \<and> map_option currentView (final (happyPath @ [KeyMsg ''enter''])) = Some DetailView
   \<and> map_option loading (final (happyPath @ [KeyMsg ''enter'', KeyMsg ''esc''])) = Some True
   \<and> map_option currentView (final (happyPath @ [KeyMsg ''enter'', KeyMsg ''esc'']))
       = Some PodView"
  by (simp add: scenario_defs)

subsection \<open>C4: choosing a partition\<close>

text \<open>
  C4 does not hold of the code. From the happy path the user opens the partition
  picker, moves down to \<open>kube-system\<close> and presses \<open>enter\<close>: the partition becomes
  \<open>kube-system\<close>, \<open>loading\<close> is set, the snapshot fetch is scheduled and the view is
  the workload view, but \<open>selectedItem\<close> is still 1 and not 0. When the new partition has
  a single workload, the next \<open>enter\<close> indexes the list out of range.
\<close>

theorem namespace_activate_keeps_selection:
  "map_option currentView (final (happyPath @ [KeyMsg ''n'', KeyMsg ''down''])) = Some NamespaceView
   \<and> map_option selectedItem (final (happyPath @ [KeyMsg ''n'', KeyMsg ''down''])) = Some 1
   \<and> map_option loading (final (happyPath @ [KeyMsg ''n'', KeyMsg ''down''])) = Some False
   \<and> map_option currentView (final (happyPath @ [KeyMsg ''n'', KeyMsg ''down'', KeyMsg ''enter'']))
       = Some PodView
   \<and> map_option currentNS (final (happyPath @ [KeyMsg ''n'', KeyMsg ''down'', KeyMsg ''enter'']))
       = Some ''kube-system''
   \<and> map_option loading (final (happyPath @ [KeyMsg ''n'', KeyMsg ''down'', KeyMsg ''enter'']))
       = Some True
   \<and> map_option selectedItem (final (happyPath @ [KeyMsg ''n'', KeyMsg ''down'', KeyMsg ''enter'']))
       = Some 1
   \<and> run start (happyPath @ [KeyMsg ''n'', KeyMsg ''down'', KeyMsg ''enter'',
         ResourcesMsg \<lparr>Pods = [podNamed ''kube-system'' ''coredns''], Services = []\<rparr> None,
         KeyMsg ''enter''])
       = Some (Inl IndexOutOfRange)"
  by (simp add: scenario_defs)

subsection \<open>C5: opening the partition picker\<close>

text \<open>
  C5 does not hold of the code when the active partition is not in the list. The
  partition list could not be fetched, so it is empty; a refresh fetched two workloads
  and the user moved down to index 1. Opening the picker switches to the namespace view
  and leaves \<open>selectedItem\<close> at 1 and not at 0.
\<close>

theorem picker_keeps_selection_when_absent:
  "map_option namespaces (final (withoutPartitions @ [KeyMsg ''down''])) = Some []
   \<and> map_option currentNS (final (withoutPartitions @ [KeyMsg ''down''])) = Some ''default''
   \<and> map_option loading (final (withoutPartitions @ [KeyMsg ''down''])) = Some False
   \<and> map_option selectedItem (final (withoutPartitions @ [KeyMsg ''down''])) = Some 1
   \<and> map_option currentView (final (withoutPartitions @ [KeyMsg ''down'', KeyMsg ''n'']))
       = Some NamespaceView
   \<and> map_option selectedItem (final (withoutPartitions @ [KeyMsg ''down'', KeyMsg ''n'']))
       = Some 1"
  by (simp add: scenario_defs)

subsection \<open>C6: failed completions\<close>




subsection \<open>C7: one pending fetch\<close>

text \<open>
  C7. In every state with \<open>loading\<close> set, no key schedules a gateway call, and
  \<open>loading\<close> stays set. In every state reachable from the initial state by a sequence of
  events in which completions only arrive for pending calls, at most one gateway call is
  pending, and only while \<open>loading\<close> is set.
\<close>

theorem single_pending_fetch:
  "(loading m \<longrightarrow>
      (\<exists>m' c. Update m (KeyMsg k) = Inr (m', c) \<and> fetches c = [] \<and> loading m'))
   \<and> (run start evs = Some (Inr s) \<longrightarrow>
        length (pending s) \<le> 1 \<and> (pending s \<noteq> [] \<longrightarrow> loading (model s)))"
proof -
  have "single_flight s" if "run start evs = Some (Inr s)"
    using run_single_flight [OF that start_single_flight] .
  then have "run start evs = Some (Inr s) \<longrightarrow>
        length (pending s) \<le> 1 \<and> (pending s \<noteq> [] \<longrightarrow> loading (model s))"
    by (auto simp: single_flight_def split: if_splits)
  with key_while_loading [of m k] show ?thesis by simp
qed

theorem single_pending_fetch_witness:
  "loading New
   \<and> Update New (KeyMsg ''r'') = Inr (New, CmdNil)
   \<and> (\<exists>s. run start (connected @ [KeyMsg ''enter'']) = Some (Inr s)
          \<and> pending s = [GetResources (Some (K8sClient 1)) ''default'']
          \<and> length (pending s) \<le> 1 \<and> loading (model s))"
proof -
  obtain s where r: "run start (connected @ [KeyMsg ''enter'']) = Some (Inr s)"
    and p: "pending s = [GetResources (Some (K8sClient 1)) ''default'']"
    by (simp add: scenario_defs)
  from single_pending_fetch [of New "''r''" "connected @ [KeyMsg ''enter'']" s] r p
  show ?thesis by (auto simp: New_def updateKey_def)
qed

subsection \<open>C8: the startup sequence\<close>

text \<open>
  C8. \<open>Init\<close> schedules the connection. A successful connection schedules the context
  resolution; the context completion, failed or not, schedules the partition-list fetch,
  and a failure stores \<open>unknown-context\<close>; a successful partition list schedules the
  snapshot fetch for the current partition. A failed connection or partition list sets
  \<open>error\<close>, clears \<open>loading\<close> and schedules nothing; the snapshot completion clears
  \<open>loading\<close>. Run from the initial state, the four completions in this order end with
  nothing pending. While \<open>loading\<close> is set, as it is throughout startup, a gateway call
  is scheduled by these completions only.
\<close>

theorem startup_protocol:
  "fetches (Init New) = [InitK8sClient]
   \<and> Update m (K8sClientMsg c None)
       = Inr (m\<lparr>client := c, message := ''Getting context information...''\<rparr>, GetContextInfo c)
   \<and> Update m (K8sClientMsg c (Some e))
       = Inr (m\<lparr>loading := False, error := ''Error connecting to Kubernetes: '' @ e\<rparr>, CmdNil)
   \<and> Update m (ContextInfoMsg ctx None)
       = Inr (m\<lparr>context' := ctx, message := ''Fetching namespaces...''\<rparr>,
              GetNamespaces (client m))
   \<and> Update m (ContextInfoMsg ctx (Some e))
       = Inr (m\<lparr>context' := ''unknown-context'', message := ''Fetching namespaces...''\<rparr>,
              GetNamespaces (client m))
   \<and> Update m (NamespacesMsg nss None)
       = Inr (m\<lparr>namespaces := nss, message := ''Fetching resources...''\<rparr>,
              GetResources (client m) (currentNS m))
   \<and> Update m (NamespacesMsg nss (Some e))
       = Inr (m\<lparr>loading := False, error := ''Error fetching namespaces: '' @ e\<rparr>, CmdNil)
   \<and> Update m (ResourcesMsg d None) = Inr (m\<lparr>loading := False, resourceData := d\<rparr>, CmdNil)
   \<and> Update m (ResourcesMsg d (Some e))
       = Inr (m\<lparr>loading := False, error := ''Error fetching resources: '' @ e\<rparr>, CmdNil)
   \<and> run start [K8sClientMsg c None, ContextInfoMsg ctx (Some e), NamespacesMsg nss None,
                 ResourcesMsg d None]
       = Some (Inr \<lparr> model = New\<lparr>loading := False, client := c, context' := ''unknown-context'',
                                   namespaces := nss, message := ''Fetching resources...'',
                                   resourceData := d\<rparr>,
                        pending = [], halted = False \<rparr>)
   \<and> (loading m0 \<longrightarrow> Update m0 msg = Inr (m', cmd) \<longrightarrow> f \<in> set (fetches cmd) \<longrightarrow>
        (\<exists>c. msg = K8sClientMsg c None \<and> f = GetContextInfo c)
        \<or> (\<exists>ctx e. msg = ContextInfoMsg ctx e \<and> f = GetNamespaces (client m0))
        \<or> (\<exists>nss. msg = NamespacesMsg nss None \<and> f = GetResources (client m0) (currentNS m0)))"
proof -
  have only: "(\<exists>c. msg = K8sClientMsg c None \<and> f = GetContextInfo c)
        \<or> (\<exists>ctx e. msg = ContextInfoMsg ctx e \<and> f = GetNamespaces (client m0))
        \<or> (\<exists>nss. msg = NamespacesMsg nss None \<and> f = GetResources (client m0) (currentNS m0))"
    if l: "loading m0" and u: "Update m0 msg = Inr (m', cmd)" and f: "f \<in> set (fetches cmd)"
  proof (cases "isCompletion msg")
    case False
    from input_while_loading [OF l False u] f show ?thesis by simp
  next
    case True
    with u f show ?thesis
      by (cases msg) (auto split: option.splits)
  qed
  have whole: "run start [K8sClientMsg c None, ContextInfoMsg ctx (Some e), NamespacesMsg nss None,
                 ResourcesMsg d None]
       = Some (Inr \<lparr> model = New\<lparr>loading := False, client := c, context' := ''unknown-context'',
                                   namespaces := nss, message := ''Fetching resources...'',
                                   resourceData := d\<rparr>,
                        pending = [], halted = False \<rparr>)"
    by (simp add: start_def deliver_def New_def Init_def)
  from only whole show ?thesis
    by (simp add: Init_def)
qed

theorem startup_protocol_witness:
  "loading New
   \<and> Update New (K8sClientMsg (Some (K8sClient 1)) None)
       = Inr (New\<lparr>client := Some (K8sClient 1), message := ''Getting context information...''\<rparr>,
              GetContextInfo (Some (K8sClient 1)))
   \<and> GetContextInfo (Some (K8sClient 1)) \<in> set (fetches (GetContextInfo (Some (K8sClient 1))))"
  using startup_protocol [of New "Some (K8sClient 1)" "[]" "[]" "[]" "\<lparr>Pods = [], Services = []\<rparr>"
      New "K8sClientMsg (Some (K8sClient 1)) None"
      "New\<lparr>client := Some (K8sClient 1), message := ''Getting context information...''\<rparr>"
      "GetContextInfo (Some (K8sClient 1))" "GetContextInfo (Some (K8sClient 1))"]
  by (simp add: New_def)

subsection \<open>C9: back\<close>

text \<open>
  C9. In the detail view and in the namespace view, \<open>esc\<close> sets the view to the
  workload view and changes nothing else: \<open>namespaces\<close>, \<open>resourceData\<close>,
  \<open>detailContent\<close>, \<open>currentNS\<close> and \<open>selectedItem\<close> are the same, and nothing is
  scheduled.
\<close>

theorem back_changes_view_only:
  assumes "currentView m = DetailView \<or> currentView m = NamespaceView"
  shows "Update m (KeyMsg ''esc'') = Inr (m\<lparr>currentView := PodView\<rparr>, CmdNil)"
  using assms by (auto simp: updateKey_def)

theorem back_changes_view_only_witness:
  "(currentView (New\<lparr>currentView := DetailView, detailContent := ''Workload: foo''\<rparr>) = DetailView
    \<or> currentView (New\<lparr>currentView := DetailView, detailContent := ''Workload: foo''\<rparr>)
        = NamespaceView)
   \<and> Update (New\<lparr>currentView := DetailView, detailContent := ''Workload: foo''\<rparr>) (KeyMsg ''esc'')
       = Inr (New\<lparr>currentView := PodView, detailContent := ''Workload: foo''\<rparr>, CmdNil)"
  using back_changes_view_only [of "New\<lparr>currentView := DetailView, detailContent := ''Workload: foo''\<rparr>"]
  by (simp add: New_def)

subsection \<open>C10: frame of a successful snapshot completion\<close>

text \<open>
  C10. A successful resource-snapshot completion changes \<open>loading\<close> and
  \<open>resourceData\<close> only; the view, \<open>selectedItem\<close> (neither reset nor clamped), the
  current partition, \<open>error\<close> and \<open>detailContent\<close> are unchanged.
\<close>

theorem resources_success_frame:
  "\<exists>m'. Update m (ResourcesMsg d None) = Inr (m', CmdNil)
        \<and> m' = m\<lparr>loading := False, resourceData := d\<rparr>
        \<and> currentView m' = currentView m \<and> selectedItem m' = selectedItem m
        \<and> currentNS m' = currentNS m \<and> error m' = error m
        \<and> detailContent m' = detailContent m"
  by simp

end
